theory Spec2Isabelle
  imports Main "HOL-Library.AList"
begin

section \<open>PVI discovery of ophyd-async devices (\<^verbatim>\<open>ophyd_async/epics/pvi/pvi.py\<close>)\<close>

text \<open>
  A shallow embedding of \<^verbatim>\<open>pvi.py\<close>. Python names are kept; a leading underscore is
  dropped because an Isabelle name cannot start with one. Exceptions are values of
  \<open>error\<close>. Dictionaries are association lists in insertion order, written with
  \<open>AList.update\<close> (an existing key keeps its position, a new key is appended), which is
  what a Python \<^verbatim>\<open>dict\<close> does.
\<close>

subsection \<open>Type hints\<close>

text \<open>
  The objects that \<^verbatim>\<open>get_type_hints\<close> returns for the attributes of a device class.
  A class object carries its name, whether it is a subclass of \<^verbatim>\<open>Signal\<close>, and its own
  type hints; \<open>UnionOf args\<close> is \<^verbatim>\<open>Union[args]\<close> (so \<^verbatim>\<open>Optional[X]\<close> is
  \<open>UnionOf [X, NoneType]\<close>); \<open>DeviceVectorOf t\<close> is \<^verbatim>\<open>DeviceVector[t]\<close>; \<open>Generic n s args\<close>
  is \<^verbatim>\<open>C[args]\<close> for any other generic class \<^verbatim>\<open>C\<close> named \<open>n\<close>, \<open>s\<close> telling whether
  \<^verbatim>\<open>C\<close> is a subclass of \<^verbatim>\<open>Signal\<close>. Hints are finite trees: a class whose hints mention
  the class itself is outside the model.
\<close>

datatype pytype =
    NoneType
  | Class string bool "(string \<times> pytype) list"
  | UnionOf "pytype list"
  | DeviceVectorOf pytype
  | Generic string bool "pytype list"

datatype origin = typing_Union | typing_Optional | DeviceVector_class | origin_class string bool

datatype error =
    AssertionError
  | IndexError
  | TypeError
  | KeyError "string list"
  | KeyError_sub_entries string
  | RuntimeError_not_pvi_table
  | RuntimeError_not_provided string pytype
  | Timeout

text \<open>
  \<open>KeyError keys\<close> is the failing lookup \<^verbatim>\<open>_pvi_mapping[frozenset(keys)]\<close>;
  \<open>RuntimeError_not_pvi_table\<close> is \<^verbatim>\<open>RuntimeError("Top level entry must be a pvi table")\<close>;
  \<open>RuntimeError_not_provided sub_name sub_device\<close> is the error of
  \<^verbatim>\<open>_verify_common_blocks\<close>, whose message is built from \<^verbatim>\<open>sub_name\<close> and
  \<^verbatim>\<open>type(sub_device)\<close>; \<open>Timeout\<close> stands for whatever the transport raises.
\<close>

text \<open>\<^verbatim>\<open>typing.get_origin\<close>: it answers \<^verbatim>\<open>typing.Union\<close> for every union, also for
  \<^verbatim>\<open>Optional[X]\<close>, and never \<^verbatim>\<open>typing.Optional\<close>.\<close>

fun get_origin :: "pytype \<Rightarrow> origin option" where
  "get_origin (UnionOf args) = Some typing_Union"
| "get_origin (DeviceVectorOf t) = Some DeviceVector_class"
| "get_origin (Generic n s args) = Some (origin_class n s)"
| "get_origin NoneType = None"
| "get_origin (Class n s hs) = None"

fun get_args :: "pytype \<Rightarrow> pytype list" where
  "get_args (UnionOf args) = args"
| "get_args (DeviceVectorOf t) = [t]"
| "get_args (Generic n s args) = args"
| "get_args NoneType = []"
| "get_args (Class n s hs) = []"

text \<open>\<^verbatim>\<open>typing.get_type_hints\<close>: the hints of a class; nothing for \<^verbatim>\<open>NoneType\<close> and for
  \<^verbatim>\<open>DeviceVector[t]\<close> (the class \<^verbatim>\<open>DeviceVector\<close> declares no attribute of its own);
  \<^verbatim>\<open>TypeError\<close> for a union and for any other parameterised generic.\<close>

fun get_type_hints :: "pytype \<Rightarrow> error + (string \<times> pytype) list" where
  "get_type_hints (Class n s hs) = Inr hs"
| "get_type_hints NoneType = Inr []"
| "get_type_hints (DeviceVectorOf t) = Inr []"
| "get_type_hints (UnionOf args) = Inl TypeError"
| "get_type_hints (Generic n s args) = Inl TypeError"

text \<open>\<^verbatim>\<open>inspect.isclass\<close>, and \<^verbatim>\<open>issubclass(x, Signal)\<close> for an origin and for a hint;
  \<^verbatim>\<open>issubclass\<close> raises \<^verbatim>\<open>TypeError\<close> when its first argument is not a class.\<close>

fun isclass :: "pytype \<Rightarrow> bool" where
  "isclass NoneType = True"
| "isclass (Class n s hs) = True"
| "isclass (UnionOf args) = False"
| "isclass (DeviceVectorOf t) = False"
| "isclass (Generic n s args) = False"

fun issubclass_Signal_origin :: "origin \<Rightarrow> error + bool" where
  "issubclass_Signal_origin (origin_class n s) = Inr s"
| "issubclass_Signal_origin DeviceVector_class = Inr False"
| "issubclass_Signal_origin typing_Union = Inl TypeError"
| "issubclass_Signal_origin typing_Optional = Inl TypeError"

fun issubclass_Signal :: "pytype \<Rightarrow> error + bool" where
  "issubclass_Signal NoneType = Inr False"
| "issubclass_Signal (Class n s hs) = Inr s"
| "issubclass_Signal (UnionOf args) = Inl TypeError"
| "issubclass_Signal (DeviceVectorOf t) = Inl TypeError"
| "issubclass_Signal (Generic n s args) = Inl TypeError"

text \<open>The classes \<^verbatim>\<open>Device\<close> and \<^verbatim>\<open>Signal\<close> of \<^verbatim>\<open>ophyd_async.core\<close>. Their declared
  attributes are the identity and parent-link attributes \<^verbatim>\<open>_name\<close> and \<^verbatim>\<open>parent\<close>.\<close>

definition Device_hints :: "(string \<times> pytype) list" where
  "Device_hints =
     [(''_name'', Class ''str'' False []),
      (''parent'', UnionOf [Class ''Device'' False [], NoneType])]"

definition Device_class :: pytype where
  "Device_class = Class ''Device'' False Device_hints"

definition Signal_class :: pytype where
  "Signal_class = Class ''Signal'' True Device_hints"

subsection \<open>\<^verbatim>\<open>_strip_number_from_string\<close>\<close>

text \<open>
  \<^verbatim>\<open>re.match(r"(.*?)(\d*)$", string)\<close> as the backtracking search it is. Characters are
  the code points below 256, where \<^verbatim>\<open>\d\<close> is exactly \<^verbatim>\<open>0\<close> to \<^verbatim>\<open>9\<close>. \<^verbatim>\<open>$\<close> holds at
  the end of the string and just before a line feed that ends the string; \<^verbatim>\<open>.\<close> matches
  everything but a line feed. \<open>match_digits\<close> is the greedy \<^verbatim>\<open>(\d*)$\<close>: it takes a digit
  if the rest then matches, and otherwise tries to stop. \<open>re_match pre rest\<close> is the lazy
  \<^verbatim>\<open>(.*?)\<close> that has consumed \<open>pre\<close>: it tries to stop, and otherwise takes one more
  character.
\<close>

definition isdigit :: "char \<Rightarrow> bool" where
  "isdigit c \<longleftrightarrow> c \<in> set ''0123456789''"

definition digit_value :: "char \<Rightarrow> int" where
  "digit_value c = int (of_char c) - 48"

definition int_of_digits :: "string \<Rightarrow> int" where
  "int_of_digits ds = foldl (\<lambda>n c. 10 * n + digit_value c) 0 ds"

definition at_end :: "string \<Rightarrow> bool" where
  "at_end rest \<longleftrightarrow> rest = [] \<or> rest = [CHR 0x0A]"

fun match_digits :: "string \<Rightarrow> string option" where
  "match_digits [] = Some []"
| "match_digits (c # cs) =
     (case (if isdigit c then match_digits cs else None) of
        Some ds \<Rightarrow> Some (c # ds)
      | None \<Rightarrow> if at_end (c # cs) then Some [] else None)"

fun re_match :: "string \<Rightarrow> string \<Rightarrow> (string \<times> string) option" where
  "re_match pre rest =
     (case match_digits rest of
        Some ds \<Rightarrow> Some (pre, ds)
      | None \<Rightarrow>
          (case rest of
             [] \<Rightarrow> None
           | c # cs \<Rightarrow> if c = CHR 0x0A then None else re_match (pre @ [c]) cs))"

definition strip_number_from_string :: "string \<Rightarrow> error + string \<times> int option" where
  "strip_number_from_string string =
     (case re_match [] string of
        None \<Rightarrow> Inl AssertionError
      | Some (name, number) \<Rightarrow>
          Inr (name, if number = [] then None else Some (int_of_digits number)))"

subsection \<open>\<^verbatim>\<open>_strip_union\<close>, \<^verbatim>\<open>_strip_device_vector\<close>, \<^verbatim>\<open>_parse_type\<close>\<close>

definition strip_union :: "pytype \<Rightarrow> pytype" where
  "strip_union field =
     (if get_origin field = Some typing_Union
      then (case filter (\<lambda>arg. arg \<noteq> NoneType) (get_args field) of
              arg # _ \<Rightarrow> arg
            | [] \<Rightarrow> field)
      else field)"

text \<open>\<^verbatim>\<open>get_args(field)[0]\<close> of a \<^verbatim>\<open>DeviceVector[t]\<close> is \<open>t\<close>: the list of its arguments is
  never empty.\<close>

definition strip_device_vector :: "pytype \<Rightarrow> bool \<times> pytype" where
  "strip_device_vector field =
     (if get_origin field = Some DeviceVector_class
      then (True, hd (get_args field))
      else (False, field))"

text \<open>The test of \<^verbatim>\<open>_parse_type\<close>:
  \<^verbatim>\<open>((origin := get_origin(t)) and issubclass(origin, Signal)) or (isclass(t) and issubclass(t, Signal))\<close>.\<close>

definition origin_is_Signal :: "pytype \<Rightarrow> error + bool" where
  "origin_is_Signal t =
     (case get_origin t of
        None \<Rightarrow> Inr False
      | Some origin \<Rightarrow> issubclass_Signal_origin origin)"

definition parse_type_is_signal :: "pytype \<Rightarrow> error + bool" where
  "parse_type_is_signal device_type =
     (case origin_is_Signal device_type of
        Inl e \<Rightarrow> Inl e
      | Inr True \<Rightarrow> Inr True
      | Inr False \<Rightarrow>
          if isclass device_type then issubclass_Signal device_type else Inr False)"

definition parse_type ::
  "bool \<Rightarrow> int option \<Rightarrow> pytype option \<Rightarrow> error + bool \<times> bool \<times> pytype option \<times> pytype"
where
  "parse_type is_pvi_table number_suffix common_device_type =
     (case common_device_type of
        Some t \<Rightarrow>
          (let (is_device_vector, device_type) = strip_device_vector (strip_union t)
           in case parse_type_is_signal device_type of
                Inl e \<Rightarrow> Inl e
              | Inr True \<Rightarrow>
                  (case get_args device_type of
                     [] \<Rightarrow> Inl IndexError
                   | signal_dtype # _ \<Rightarrow>
                       Inr (is_device_vector, True, Some signal_dtype, device_type))
              | Inr False \<Rightarrow> Inr (is_device_vector, False, None, device_type))
      | None \<Rightarrow>
          if is_pvi_table
          then Inr (number_suffix \<noteq> None, False, None, Device_class)
          else Inr (False, True, None, Signal_class))"

subsection \<open>Endpoints and the node tree\<close>

text \<open>
  The endpoint constructors \<^verbatim>\<open>epics_signal_rw\<close>, \<^verbatim>\<open>epics_signal_r\<close>, \<^verbatim>\<open>epics_signal_w\<close>
  and \<^verbatim>\<open>epics_signal_x\<close> are collaborators; an endpoint is the constructor with the
  arguments it was given (value type, then the addresses).
\<close>

datatype signal =
    epics_signal_rw "pytype option" string string
  | epics_signal_r "pytype option" string
  | epics_signal_w "pytype option" string
  | epics_signal_x string

text \<open>
  An object of the device tree: how it was made, the attributes set on it with
  \<^verbatim>\<open>setattr\<close>, and its items when it is a \<^verbatim>\<open>DeviceVector\<close>. \<open>Instance t\<close> is \<^verbatim>\<open>t()\<close>,
  \<open>Endpoint s\<close> an endpoint of the factory, \<open>SimEndpoint t dtype name\<close> is
  \<^verbatim>\<open>t(SimSignalBackend(dtype, name))\<close>, \<open>Vector\<close> is \<^verbatim>\<open>DeviceVector(...)\<close>. The
  \<^verbatim>\<open>parent\<close> back-reference of a child is the object that holds it.
\<close>

datatype made =
    Instance pytype
  | Endpoint signal
  | SimEndpoint pytype "pytype option" string
  | Vector

datatype node = Node (made: made) (attrs: "(string \<times> node) list") (items: "(int \<times> node) list")

definition instantiate :: "pytype \<Rightarrow> node" where
  "instantiate t = Node (Instance t) [] []"

fun setattr :: "node \<Rightarrow> string \<Rightarrow> node \<Rightarrow> node" where
  "setattr (Node m as is) name v = Node m (AList.update name v as) is"

subsection \<open>\<^verbatim>\<open>PVIEntry\<close>\<close>

text \<open>
  The dataclass, with its four fields in the order of the source. A value of
  \<^verbatim>\<open>sub_entries\<close> is either one entry or a dictionary from index to entry. The field
  \<^verbatim>\<open>device\<close> is always given where this module builds an entry.
\<close>

datatype PVIEntry =
  PVIEntry (sub_entries: "(string \<times> slot) list") (pvi_pv: "string option")
           (device: node) (common_device_type: "pytype option")
and slot = Single PVIEntry | Indexed "(int \<times> PVIEntry) list"

fun set_sub_entries :: "PVIEntry \<Rightarrow> (string \<times> slot) list \<Rightarrow> PVIEntry" where
  "set_sub_entries (PVIEntry ses pv d t) ses' = PVIEntry ses' pv d t"

fun set_pvi_pv :: "PVIEntry \<Rightarrow> string option \<Rightarrow> PVIEntry" where
  "set_pvi_pv (PVIEntry ses pv d t) pv' = PVIEntry ses pv' d t"

subsection \<open>\<^verbatim>\<open>_verify_common_blocks\<close>\<close>

text \<open>
  \<open>verify_hints\<close> is the loop over \<^verbatim>\<open>common_sub_devices.items()\<close> and \<open>verify_values\<close> the
  loop over the values of a dictionary slot. The test of line 83 is written as the source
  has it: the name is missing and \<^verbatim>\<open>get_origin(sub_device) is not Optional\<close>.
\<close>

function verify_common_blocks :: "PVIEntry \<Rightarrow> pytype \<Rightarrow> error + unit"
  and verify_hints :: "PVIEntry \<Rightarrow> (string \<times> pytype) list \<Rightarrow> error + unit"
  and verify_values :: "(int \<times> PVIEntry) list \<Rightarrow> pytype \<Rightarrow> error + unit"
where
  "verify_common_blocks entry common_device =
     (if sub_entries entry = [] then Inr ()
      else case get_type_hints common_device of
             Inl e \<Rightarrow> Inl e
           | Inr common_sub_devices \<Rightarrow> verify_hints entry common_sub_devices)"
| "verify_hints entry [] = Inr ()"
| "verify_hints entry ((sub_name, sub_device) # rest) =
     (if sub_name = ''_name'' \<or> sub_name = ''parent'' then verify_hints entry rest
      else if map_of (sub_entries entry) sub_name = None \<and>
              get_origin sub_device \<noteq> Some typing_Optional
      then Inl (RuntimeError_not_provided sub_name sub_device)
      else case map_of (sub_entries entry) sub_name of
             None \<Rightarrow> Inl (KeyError_sub_entries sub_name)
           | Some (Indexed d) \<Rightarrow>
               (case verify_values d sub_device of
                  Inl e \<Rightarrow> Inl e
                | Inr _ \<Rightarrow> verify_hints entry rest)
           | Some (Single sub_entry) \<Rightarrow>
               (case verify_common_blocks sub_entry sub_device of
                  Inl e \<Rightarrow> Inl e
                | Inr _ \<Rightarrow> verify_hints entry rest))"
| "verify_values [] sub_device = Inr ()"
| "verify_values ((key, sub_sub_entry) # rest) sub_device =
     (case verify_common_blocks sub_sub_entry sub_device of
        Inl e \<Rightarrow> Inl e
      | Inr _ \<Rightarrow> verify_values rest sub_device)"
  by pat_completeness auto
termination
proof -
  have idx: "size_list (size_prod (\<lambda>_. 0) size) d < size entry"
    if "map_of (sub_entries entry) n = Some (Indexed d)" for entry n d
  proof -
    have "map_of ses n = Some (Indexed d) \<Longrightarrow>
            size_list (size_prod (\<lambda>_. 0) size) d < size_list (size_prod (\<lambda>_. 0) size) ses"
      for ses :: "(string \<times> slot) list"
      by (induction ses) (auto split: if_splits)
    with that show ?thesis by (cases entry) fastforce
  qed
  have sng: "size sub < size entry"
    if "map_of (sub_entries entry) n = Some (Single sub)" for entry n sub
  proof -
    have "map_of ses n = Some (Single sub) \<Longrightarrow>
            size sub < size_list (size_prod (\<lambda>_. 0) size) ses"
      for ses :: "(string \<times> slot) list"
      by (induction ses) (auto split: if_splits)
    with that show ?thesis by (cases entry) fastforce
  qed
  show ?thesis
    by (relation "inv_image (less_than <*lex*> less_than <*lex*> less_than)
          (\<lambda>x. case x of
             Inl (entry, t) \<Rightarrow> (size entry, 1::nat, 0::nat)
           | Inr (Inl (entry, hs)) \<Rightarrow> (size entry, 0, length hs)
           | Inr (Inr (d, t)) \<Rightarrow> (size_list (size_prod (\<lambda>_. 0) size) d, 2, 0))")
       (auto intro!: wf_inv_image dest: idx sng)
qed

subsection \<open>\<^verbatim>\<open>_pvi_mapping\<close>\<close>

text \<open>
  The dictionary from a \<^verbatim>\<open>frozenset\<close> of access modes to a constructor. A constructor is
  called as \<^verbatim>\<open>f(signal_dtype, *pvs)\<close>; a call with the wrong number of addresses would
  raise \<^verbatim>\<open>TypeError\<close>. \<open>make_signal\<close> is line 227: the lookup with the keys of
  \<^verbatim>\<open>pva_entries\<close>, then the call with its values, in the order of the table.
\<close>

definition pvi_mapping ::
  "string set \<Rightarrow> (pytype option \<Rightarrow> string list \<Rightarrow> error + signal) option"
where
  "pvi_mapping key =
     (if key = {''r'', ''w''} then
        Some (\<lambda>dtype pvs. case pvs of
                [read_pv, write_pv] \<Rightarrow>
                  Inr (epics_signal_rw dtype (''pva://'' @ read_pv) (''pva://'' @ write_pv))
              | _ \<Rightarrow> Inl TypeError)
      else if key = {''rw''} then
        Some (\<lambda>dtype pvs. case pvs of
                [read_write_pv] \<Rightarrow>
                  Inr (epics_signal_rw dtype (''pva://'' @ read_write_pv)
                         (''pva://'' @ read_write_pv))
              | _ \<Rightarrow> Inl TypeError)
      else if key = {''r''} then
        Some (\<lambda>dtype pvs. case pvs of
                [read_pv] \<Rightarrow> Inr (epics_signal_r dtype (''pva://'' @ read_pv))
              | _ \<Rightarrow> Inl TypeError)
      else if key = {''w''} then
        Some (\<lambda>dtype pvs. case pvs of
                [write_pv] \<Rightarrow> Inr (epics_signal_w dtype (''pva://'' @ write_pv))
              | _ \<Rightarrow> Inl TypeError)
      else if key = {''x''} then
        Some (\<lambda>dtype pvs. case pvs of
                [write_pv] \<Rightarrow> Inr (epics_signal_x (''pva://'' @ write_pv))
              | _ \<Rightarrow> Inl TypeError)
      else None)"

definition make_signal :: "(string \<times> string) list \<Rightarrow> pytype option \<Rightarrow> error + signal" where
  "make_signal pva_entries signal_dtype =
     (case pvi_mapping (set (map fst pva_entries)) of
        None \<Rightarrow> Inl (KeyError (map fst pva_entries))
      | Some f \<Rightarrow> f signal_dtype (map snd pva_entries))"

subsection \<open>\<^verbatim>\<open>_get_pvi_entries\<close>\<close>

definition endswith :: "string \<Rightarrow> string \<Rightarrow> bool" where
  "endswith s suffix \<longleftrightarrow>
     length suffix \<le> length s \<and> drop (length s - length suffix) s = suffix"

text \<open>
  Lines 218 to 233, the part of the loop body that does not touch \<^verbatim>\<open>entry\<close>: whether the
  child is itself a table, its name split, the resolved type, the device built for it and
  the new entry. The result is \<open>(is_pvi_table, sub_name_split, sub_number_split,
  is_device_vector, sub_entry)\<close>.
\<close>

definition new_sub_entry ::
  "(string \<times> pytype) list \<Rightarrow> string \<Rightarrow> (string \<times> string) list \<Rightarrow>
   error + bool \<times> string \<times> int option \<times> bool \<times> PVIEntry"
where
  "new_sub_entry common_device_type_hints sub_name pva_entries =
     (let pvs = map snd pva_entries;
          is_pvi_table = (length pvs = 1 \<and> endswith (hd pvs) '':PVI'')
      in case strip_number_from_string sub_name of
           Inl e \<Rightarrow> Inl e
         | Inr (sub_name_split, sub_number_split) \<Rightarrow>
      (case parse_type is_pvi_table sub_number_split
              (map_of common_device_type_hints sub_name_split) of
           Inl e \<Rightarrow> Inl e
         | Inr (is_device_vector, is_signal, signal_dtype, device_type) \<Rightarrow>
      (case (if is_signal
             then map_sum id (\<lambda>s. Node (Endpoint s) [] []) (make_signal pva_entries signal_dtype)
             else Inr (instantiate device_type)) of
           Inl e \<Rightarrow> Inl e
         | Inr new_device \<Rightarrow>
             Inr (is_pvi_table, sub_name_split, sub_number_split, is_device_vector,
                  PVIEntry [] None new_device (Some device_type)))))"

text \<open>
  Lines 235 to 245: the new entry goes under the base name and its index when it is part
  of a collection (an absent suffix counts as index 1), and under the full name
  otherwise. Item assignment into a slot that holds one entry raises \<^verbatim>\<open>TypeError\<close>.
\<close>

definition put_sub_entry ::
  "PVIEntry \<Rightarrow> bool \<Rightarrow> string \<Rightarrow> string \<Rightarrow> int option \<Rightarrow> PVIEntry \<Rightarrow> error + PVIEntry"
where
  "put_sub_entry entry is_device_vector sub_name sub_name_split sub_number_split sub_entry =
     (if is_device_vector then
        (let sub_number = (case sub_number_split of None \<Rightarrow> 1 | Some k \<Rightarrow> k)
         in case map_of (sub_entries entry) sub_name_split of
              None \<Rightarrow>
                Inr (set_sub_entries entry
                       (AList.update sub_name_split (Indexed [(sub_number, sub_entry)])
                          (sub_entries entry)))
            | Some (Indexed d) \<Rightarrow>
                Inr (set_sub_entries entry
                       (AList.update sub_name_split
                          (Indexed (AList.update sub_number sub_entry d)) (sub_entries entry)))
            | Some (Single _) \<Rightarrow> Inl TypeError)
      else
        Inr (set_sub_entries entry
               (AList.update sub_name (Single sub_entry) (sub_entries entry))))"

text \<open>
  The remote read is a collaborator: \<open>fetch pv timeout\<close> is what connecting to the table
  at \<open>pv\<close> with that timeout and reading its \<^verbatim>\<open>pvi\<close> field gives, a table or an error. A
  table maps a child name to its access modes and addresses, both in the reported order.
  \<open>dflt\<close> is \<^verbatim>\<open>DEFAULT_TIMEOUT\<close>.

  A table can name itself as a sub-table, so the recursion takes fuel: \<open>None\<close> means that
  the fuel did not suffice. A result \<open>Some (r, entry')\<close> gives the entry as the call left
  it, and in \<open>r\<close> the exception that ended the call, if one did.

  \<open>pva_table_loop\<close> is the loop of lines 217 to 249, with \<open>new_sub_entry\<close> for its first
  part. The entry of a nested table is in \<^verbatim>\<open>entry.sub_entries\<close> before the recursive call
  fills it in place; the model puts the new entry, and puts it again as the recursive
  call left it. The recursive call is made without a timeout, so with \<^verbatim>\<open>DEFAULT_TIMEOUT\<close>.
\<close>

type_synonym pva_table = "(string \<times> (string \<times> string) list) list"

fun get_pvi_entries ::
      "'t \<Rightarrow> (string \<Rightarrow> 't \<Rightarrow> error + pva_table) \<Rightarrow> nat \<Rightarrow> PVIEntry \<Rightarrow> 't \<Rightarrow>
       (error option \<times> PVIEntry) option"
  and pva_table_loop ::
      "'t \<Rightarrow> (string \<Rightarrow> 't \<Rightarrow> error + pva_table) \<Rightarrow> nat \<Rightarrow> (string \<times> pytype) list \<Rightarrow>
       pva_table \<Rightarrow> PVIEntry \<Rightarrow> (error option \<times> PVIEntry) option"
where
  "get_pvi_entries dflt fetch 0 entry timeout = None"
| "get_pvi_entries dflt fetch (Suc fuel) entry timeout =
     (case pvi_pv entry of
        None \<Rightarrow> Some (Some RuntimeError_not_pvi_table, entry)
      | Some pv \<Rightarrow>
          if \<not> endswith pv '':PVI'' then Some (Some RuntimeError_not_pvi_table, entry)
          else
            (case fetch pv timeout of
               Inl e \<Rightarrow> Some (Some e, entry)
             | Inr pva_table \<Rightarrow>
                 (case (case common_device_type entry of
                          Some t \<Rightarrow> get_type_hints t
                        | None \<Rightarrow> Inr []) of
                    Inl e \<Rightarrow> Some (Some e, entry)
                  | Inr common_device_type_hints \<Rightarrow>
                      (case pva_table_loop dflt fetch fuel common_device_type_hints
                              pva_table entry of
                         None \<Rightarrow> None
                       | Some (Some e, entry') \<Rightarrow> Some (Some e, entry')
                       | Some (None, entry') \<Rightarrow>
                           (case common_device_type entry' of
                              None \<Rightarrow> Some (None, entry')
                            | Some t \<Rightarrow>
                                (case verify_common_blocks entry' t of
                                   Inl e \<Rightarrow> Some (Some e, entry')
                                 | Inr _ \<Rightarrow> Some (None, entry')))))))"
| "pva_table_loop dflt fetch fuel hints [] entry = Some (None, entry)"
| "pva_table_loop dflt fetch fuel hints ((sub_name, pva_entries) # rest) entry =
     (case new_sub_entry hints sub_name pva_entries of
        Inl e \<Rightarrow> Some (Some e, entry)
      | Inr (is_pvi_table, sub_name_split, sub_number_split, is_device_vector, sub_entry) \<Rightarrow>
          (case put_sub_entry entry is_device_vector sub_name sub_name_split
                  sub_number_split sub_entry of
             Inl e \<Rightarrow> Some (Some e, entry)
           | Inr entry1 \<Rightarrow>
               if is_pvi_table then
                 (case get_pvi_entries dflt fetch fuel
                         (set_pvi_pv sub_entry (Some (hd (map snd pva_entries)))) dflt of
                    None \<Rightarrow> None
                  | Some (r, sub_entry') \<Rightarrow>
                      (let entry2 =
                             (case put_sub_entry entry1 is_device_vector sub_name
                                     sub_name_split sub_number_split sub_entry' of
                                Inl _ \<Rightarrow> entry1
                              | Inr entry2 \<Rightarrow> entry2)
                       in case r of
                            Some e \<Rightarrow> Some (Some e, entry2)
                          | None \<Rightarrow> pva_table_loop dflt fetch fuel hints rest entry2))
               else pva_table_loop dflt fetch fuel hints rest entry1))"

subsection \<open>\<^verbatim>\<open>_set_device_attributes\<close>\<close>

text \<open>
  \<open>set_device_attributes entry\<close> is \<^verbatim>\<open>entry.device\<close> after the call. \<open>materialise\<close> is the
  device of a sub-entry once its own attributes are set, which the source does only when
  \<^verbatim>\<open>pvi_pv\<close> is set and not empty. \<open>vector_items\<close> is the loop that fills a
  \<^verbatim>\<open>DeviceVector\<close>, \<open>attach\<close> the loop over \<^verbatim>\<open>entry.sub_entries.items()\<close>.
\<close>

fun set_device_attributes :: "PVIEntry \<Rightarrow> node"
  and attach :: "node \<Rightarrow> (string \<times> slot) list \<Rightarrow> node"
  and sub_device_of :: "slot \<Rightarrow> node"
  and vector_items :: "(int \<times> node) list \<Rightarrow> (int \<times> PVIEntry) list \<Rightarrow> (int \<times> node) list"
  and materialise :: "PVIEntry \<Rightarrow> node"
where
  "set_device_attributes (PVIEntry ses pv d t) = attach d ses"
| "attach dev [] = dev"
| "attach dev ((sub_name, sub_entry) # rest) =
     attach (setattr dev sub_name (sub_device_of sub_entry)) rest"
| "sub_device_of (Indexed d) = Node Vector [] (vector_items [] d)"
| "sub_device_of (Single sub_entry) = materialise sub_entry"
| "vector_items acc [] = acc"
| "vector_items acc ((key, device_vector_sub_entry) # rest) =
     vector_items (AList.update key (materialise device_vector_sub_entry) acc) rest"
| "materialise (PVIEntry ses pv d t) =
     (if pv \<noteq> None \<and> pv \<noteq> Some [] then set_device_attributes (PVIEntry ses pv d t) else d)"

subsection \<open>\<^verbatim>\<open>_sim_common_blocks\<close>\<close>

text \<open>
  The test of lines 157 to 159:
  \<^verbatim>\<open>((origin := get_origin(t)) and issubclass(origin, Signal)) or issubclass(t, Signal)\<close>.
\<close>

definition sim_is_signal :: "pytype \<Rightarrow> error + bool" where
  "sim_is_signal sub_device_t =
     (case origin_is_Signal sub_device_t of
        Inl e \<Rightarrow> Inl e
      | Inr True \<Rightarrow> Inr True
      | Inr False \<Rightarrow> issubclass_Signal sub_device_t)"

definition sim_signal :: "pytype \<Rightarrow> string \<Rightarrow> node" where
  "sim_signal sub_device_t sub_name =
     Node (SimEndpoint sub_device_t
             (case get_args sub_device_t of [] \<Rightarrow> None | signal_type # _ \<Rightarrow> Some signal_type)
             sub_name) [] []"

text \<open>
  \<open>sim_common_blocks device device_t\<close> gives the exception that ended the call, if one
  did, and \<^verbatim>\<open>device\<close> as the call left it; \<open>device_t\<close> is
  \<^verbatim>\<open>stripped_type or type(device)\<close>. \<open>sim_hints\<close> is the loop over the type hints. The two
  members of a collection are built and filled one after the other, as the source does.
\<close>

function sim_common_blocks :: "node \<Rightarrow> pytype \<Rightarrow> error option \<times> node"
  and sim_hints :: "node \<Rightarrow> (string \<times> pytype) list \<Rightarrow> error option \<times> node"
where
  "sim_common_blocks dev device_t =
     (case get_type_hints device_t of
        Inl e \<Rightarrow> (Some e, dev)
      | Inr hs \<Rightarrow> sim_hints dev hs)"
| "sim_hints dev [] = (None, dev)"
| "sim_hints dev ((sub_name, hint) # rest) =
     (if sub_name = ''_name'' \<or> sub_name = ''parent'' then sim_hints dev rest
      else
        (let is_device_vector = fst (strip_device_vector (strip_union hint));
             sub_device_t = snd (strip_device_vector (strip_union hint))
         in case sim_is_signal sub_device_t of
              Inl e \<Rightarrow> (Some e, dev)
            | Inr True \<Rightarrow>
                sim_hints
                  (setattr dev sub_name
                     (if is_device_vector
                      then Node Vector []
                             [(1, sim_signal sub_device_t sub_name),
                              (2, sim_signal sub_device_t sub_name)]
                      else sim_signal sub_device_t sub_name))
                  rest
            | Inr False \<Rightarrow>
                if is_device_vector then
                  (case sim_common_blocks (instantiate sub_device_t) sub_device_t of
                     (Some e, _) \<Rightarrow> (Some e, dev)
                   | (None, sub_device_1) \<Rightarrow>
                       (case sim_common_blocks (instantiate sub_device_t) sub_device_t of
                          (Some e, _) \<Rightarrow> (Some e, dev)
                        | (None, sub_device_2) \<Rightarrow>
                            sim_hints
                              (setattr dev sub_name
                                 (Node Vector [] [(1, sub_device_1), (2, sub_device_2)]))
                              rest))
                else
                  (case sim_common_blocks (instantiate sub_device_t) sub_device_t of
                     (Some e, _) \<Rightarrow> (Some e, dev)
                   | (None, sub_device) \<Rightarrow> sim_hints (setattr dev sub_name sub_device) rest)))"
  by pat_completeness auto
termination
proof -
  have su: "size (strip_union t) \<le> size t" for t
  proof (cases t)
    case (UnionOf args)
    have "a \<in> set xs \<Longrightarrow> size a \<le> size_list size xs" for a :: pytype and xs
      by (induction xs) auto
    moreover have "filter (\<lambda>arg. arg \<noteq> NoneType) args = a # as \<Longrightarrow> a \<in> set args" for a as
      by (metis filter_is_subset list.set_intros(1) subsetD)
    ultimately show ?thesis using UnionOf
      by (fastforce simp: strip_union_def split: list.splits)
  qed (simp_all add: strip_union_def)
  have sv: "size (snd (strip_device_vector t)) \<le> size t" for t
    by (cases t) (simp_all add: strip_device_vector_def)
  have st: "size (snd (strip_device_vector (strip_union t))) \<le> size t" for t
    using su[of t] sv[of "strip_union t"] by simp
  have hs: "size_list (size_prod (\<lambda>_. 0) size) hs \<le> size t" if "get_type_hints t = Inr hs" for t hs
    using that by (cases t) auto
  show ?thesis
    apply (relation "inv_image (less_than <*lex*> less_than)
          (\<lambda>x. case x of
             Inl (dev, t) \<Rightarrow> (size t, 1::nat)
           | Inr (dev, hs) \<Rightarrow> (size_list (size_prod (\<lambda>_. 0) size) hs, 0))")
    subgoal by (intro wf_inv_image wf_lex_prod wf_less_than)
    subgoal for dev device_t hs using hs[of device_t hs] by auto
    subgoal by simp
    subgoal for dev sub_name hint using st[of hint] by simp
    subgoal for dev sub_name hint using st[of hint] by simp
    subgoal for dev sub_name hint using st[of hint] by simp
    subgoal for dev sub_name hint using st[of hint] by simp
    subgoal for dev sub_name hint using st[of hint] by simp
    subgoal for dev sub_name hint using st[of hint] by simp
    done
qed

subsection \<open>\<^verbatim>\<open>fill_pvi_entries\<close>\<close>

text \<open>
  \<open>device_t\<close> is \<^verbatim>\<open>type(device)\<close>. The result gives the exception that ended the call, if
  one did, and the root device as the call left it; \<open>None\<close> means that the fuel did not
  suffice. The final \<^verbatim>\<open>device.set_name(device.name)\<close> is a collaborator that sets no
  attribute of the tree.
\<close>

definition fill_pvi_entries ::
  "'t \<Rightarrow> (string \<Rightarrow> 't \<Rightarrow> error + pva_table) \<Rightarrow> nat \<Rightarrow> pytype \<Rightarrow> node \<Rightarrow> string \<Rightarrow> 't \<Rightarrow> bool \<Rightarrow>
   (error option \<times> node) option"
where
  "fill_pvi_entries dflt fetch fuel device_t dev root_pv timeout sim =
     (if sim then Some (sim_common_blocks dev device_t)
      else
        (let root_entry = PVIEntry [] (Some root_pv) dev (Some device_t)
         in case get_pvi_entries dflt fetch fuel root_entry timeout of
              None \<Rightarrow> None
            | Some (Some e, entry') \<Rightarrow> Some (Some e, device entry')
            | Some (None, entry') \<Rightarrow> Some (None, set_device_attributes entry')))"

subsection \<open>Notions of the specification and example inputs\<close>



definition supported_access :: "string set set" where
  "supported_access = {{''r'', ''w''}, {''rw''}, {''r''}, {''w''}, {''x''}}"

text \<open>A device class with one required attribute \<^verbatim>\<open>motor\<close> of node type, and three remote
  tables for it: an empty one, one with a single read-only leaf, and one whose second
  child has the access modes \<^verbatim>\<open>d\<close> and \<^verbatim>\<open>r\<close>.\<close>

definition Root1 :: pytype where
  "Root1 = Class ''Root'' False
     (Device_hints @ [(''motor'', Class ''Motor'' False Device_hints)])"



definition remote3 :: "string \<Rightarrow> nat \<Rightarrow> error + pva_table" where
  "remote3 pv t = Inr [(''a'', [(''r'', ''R:A'')]), (''b'', [(''d'', ''R:B''), (''r'', ''R:B'')])]"

text \<open>The table of the specification's example, served at \<^verbatim>\<open>PV:PVI\<close>.\<close>

definition table6 :: pva_table where
  "table6 =
     [(''x'', [(''r'', ''PV:X''), (''w'', ''PV:X'')]),
      (''y1'', [(''rw'', ''PV:Y1'')]),
      (''y2'', [(''rw'', ''PV:Y2'')])]"

definition remote6 :: "string \<Rightarrow> nat \<Rightarrow> error + pva_table" where
  "remote6 pv t = (if pv = ''PV:PVI'' then Inr table6 else Inl Timeout)"

text \<open>A remote that answers only a fetch that allows at least 30 seconds: the table at
  \<^verbatim>\<open>R:PVI\<close> has the nested table \<^verbatim>\<open>R:SUB:PVI\<close>, which has one read-only leaf.\<close>

definition slow_remote :: "string \<Rightarrow> nat \<Rightarrow> error + pva_table" where
  "slow_remote pv t =
     (if t < 30 then Inl Timeout
      else if pv = ''R:PVI'' then Inr [(''sub'', [(''d'', ''R:SUB:PVI'')])]
      else if pv = ''R:SUB:PVI'' then Inr [(''a'', [(''r'', ''R:SUB:A'')])]
      else Inl Timeout)"

text \<open>A root device that already has an attribute.\<close>

definition old_root :: node where
  "old_root = Node (Instance Device_class)
     [(''old'', Node (Endpoint (epics_signal_x ''pva://OLD'')) [] [])] []"




text \<open>A device class with an action endpoint, declared as \<^verbatim>\<open>arm: SignalX\<close>, and the table
  that has this one child with the access mode \<^verbatim>\<open>x\<close>.\<close>

definition Root9 :: pytype where
  "Root9 = Class ''Root'' False (Device_hints @ [(''arm'', Class ''SignalX'' True Device_hints)])"

definition remote9 :: "string \<Rightarrow> nat \<Rightarrow> error + pva_table" where
  "remote9 pv t = Inr [(''arm'', [(''x'', ''R:ARM'')])]"

text \<open>
  The attribute names and the collection or non-collection shape of a tree, at every
  level: whether the object is a \<^verbatim>\<open>DeviceVector\<close>, its attributes by name and its items
  by index, each with its own shape.
\<close>

datatype shape = Shape bool "(string \<times> shape) list" "(int \<times> shape) list"

fun shape_of :: "node \<Rightarrow> shape"
  and shape_attrs :: "(string \<times> node) list \<Rightarrow> (string \<times> shape) list"
  and shape_items :: "(int \<times> node) list \<Rightarrow> (int \<times> shape) list"
where
  "shape_of (Node m as is) = Shape (m = Vector) (shape_attrs as) (shape_items is)"
| "shape_attrs [] = []"
| "shape_attrs ((name, child) # rest) = (name, shape_of child) # shape_attrs rest"
| "shape_items [] = []"
| "shape_items ((key, child) # rest) = (key, shape_of child) # shape_items rest"

text \<open>A device class with an endpoint, a collection of nodes, a collection of endpoints and
  a node, every endpoint type with its value type, and a remote whose tables have exactly
  the declared attributes, the collections with the members 1 and 2.\<close>

definition Inner2 :: pytype where
  "Inner2 = Class ''Inner'' False
     (Device_hints @ [(''s'', Generic ''SignalRW'' True [Class ''int'' False []])])"

definition Outer2 :: pytype where
  "Outer2 = Class ''Outer'' False (Device_hints @
     [(''a'', Generic ''SignalRW'' True [Class ''int'' False []]),
      (''v'', DeviceVectorOf Inner2),
      (''w'', DeviceVectorOf (Generic ''SignalR'' True [Class ''float'' False []])),
      (''b'', Inner2)])"

definition remote2 :: "string \<Rightarrow> nat \<Rightarrow> error + pva_table" where
  "remote2 pv t =
     (if pv = ''R:PVI'' then
        Inr [(''a'', [(''rw'', ''R:A'')]),
             (''v1'', [(''d'', ''R:V1:PVI'')]),
             (''v2'', [(''d'', ''R:V2:PVI'')]),
             (''w1'', [(''r'', ''R:W1'')]),
             (''w2'', [(''r'', ''R:W2'')]),
             (''b'', [(''d'', ''R:B:PVI'')])]
      else if pv = ''R:V1:PVI'' then Inr [(''s'', [(''rw'', ''R:V1:S'')])]
      else if pv = ''R:V2:PVI'' then Inr [(''s'', [(''rw'', ''R:V2:S'')])]
      else if pv = ''R:B:PVI'' then Inr [(''s'', [(''r'', ''R:B:S''), (''w'', ''R:B:S'')])]
      else Inl Timeout)"


section \<open>Properties\<close>

subsection \<open>The name parser\<close>










subsection \<open>The schema resolver\<close>

text \<open>
  The rest of the resolver behaves as the three tiers say: without a declared type a
  nested table is a node, a collection exactly when the name had a numeric suffix, and a
  leaf is an endpoint of unknown value type; a declared endpoint type with a value type
  records it, inside a collection wrapper, an optional wrapper, or none.
\<close>

lemma parse_type_undeclared:
  "parse_type True number_suffix None = Inr (number_suffix \<noteq> None, False, None, Device_class)"
  "parse_type False number_suffix None = Inr (False, True, None, Signal_class)"
  by (simp_all add: parse_type_def)

lemma parse_type_declared_endpoint:
  "parse_type is_pvi_table number_suffix (Some (Generic n True (dtype # args))) =
     Inr (False, True, Some dtype, Generic n True (dtype # args))"
  "parse_type is_pvi_table number_suffix (Some (DeviceVectorOf (Generic n True (dtype # args)))) =
     Inr (True, True, Some dtype, Generic n True (dtype # args))"
  "parse_type is_pvi_table number_suffix
     (Some (UnionOf [Generic n True (dtype # args), NoneType])) =
     Inr (False, True, Some dtype, Generic n True (dtype # args))"
  by (simp_all add: parse_type_def strip_union_def strip_device_vector_def
      parse_type_is_signal_def origin_is_Signal_def)

lemma parse_type_declared_node:
  "parse_type is_pvi_table number_suffix (Some (Class n False hs)) =
     Inr (False, False, None, Class n False hs)"
  "parse_type is_pvi_table number_suffix (Some (DeviceVectorOf (Class n False hs))) =
     Inr (True, False, None, Class n False hs)"
  by (simp_all add: parse_type_def strip_union_def strip_device_vector_def
      parse_type_is_signal_def origin_is_Signal_def)

text \<open>
  C4 at the failing input: a declared endpoint class that is not parameterised by a value
  type (\<^verbatim>\<open>SignalRW\<close> rather than \<^verbatim>\<open>SignalRW[int]\<close>) makes \<^verbatim>\<open>get_args(device_type)[0]\<close>
  raise \<^verbatim>\<open>IndexError\<close>, whatever the other two arguments are.
\<close>

theorem parse_type_bare_endpoint_raises:
  "parse_type is_pvi_table number_suffix (Some (Class n True hs)) = Inl IndexError"
  by (simp add: parse_type_def strip_union_def strip_device_vector_def
      parse_type_is_signal_def origin_is_Signal_def)

subsection \<open>Discovery leaves the device of an entry alone\<close>

lemma set_sub_entries_sel [simp]:
  "device (set_sub_entries entry ses) = device entry"
  "pvi_pv (set_sub_entries entry ses) = pvi_pv entry"
  "common_device_type (set_sub_entries entry ses) = common_device_type entry"
  "sub_entries (set_sub_entries entry ses) = ses"
  by (cases entry; simp)+

lemma set_pvi_pv_sel [simp]:
  "device (set_pvi_pv entry pv) = device entry"
  "pvi_pv (set_pvi_pv entry pv) = pv"
  "common_device_type (set_pvi_pv entry pv) = common_device_type entry"
  "sub_entries (set_pvi_pv entry pv) = sub_entries entry"
  by (cases entry; simp)+









subsection \<open>The schema verifier\<close>





text \<open>
  The exemption of optional attributes at line 83 never applies: \<^verbatim>\<open>get_origin\<close> gives
  \<^verbatim>\<open>typing.Union\<close> for \<^verbatim>\<open>Optional[X]\<close>, so a missing attribute raises whether or not its
  declared type is optional.
\<close>

lemma verify_hints_missing_optional:
  assumes "map_of (sub_entries entry) sub_name = None"
      and "sub_name \<noteq> ''_name''" and "sub_name \<noteq> ''parent''"
  shows "verify_hints entry ((sub_name, UnionOf [t, NoneType]) # rest) =
           Inl (RuntimeError_not_provided sub_name (UnionOf [t, NoneType]))"
  using assms by simp

text \<open>
  C10. An entry without children passes verification against any declared type, also one
  that declares required attributes and one whose hints cannot even be read.
\<close>

theorem verify_common_blocks_empty:
  "sub_entries entry = [] \<Longrightarrow> verify_common_blocks entry common_device = Inr ()"
  by simp

text \<open>For C10: a childless entry against a class that requires \<^verbatim>\<open>motor\<close>, and against a
  union, for which \<^verbatim>\<open>get_type_hints\<close> would raise.\<close>

theorem verify_common_blocks_empty_witness:
  "sub_entries (PVIEntry [] None (instantiate Root1) (Some Root1)) = [] \<and>
   verify_common_blocks (PVIEntry [] None (instantiate Root1) (Some Root1)) Root1 = Inr () \<and>
   verify_common_blocks (PVIEntry [] None (instantiate Root1) (Some Root1))
     (UnionOf [Root1, NoneType]) = Inr ()"
  using verify_common_blocks_empty[of "PVIEntry [] None (instantiate Root1) (Some Root1)" Root1]
    verify_common_blocks_empty[of "PVIEntry [] None (instantiate Root1) (Some Root1)"
      "UnionOf [Root1, NoneType]"]
  by simp




subsection \<open>The endpoint factory\<close>

lemma make_signal_simps:
  "set (map fst xs) = {''r'', ''w''} \<Longrightarrow> map snd xs = [p, q] \<Longrightarrow>
     make_signal xs dtype = Inr (epics_signal_rw dtype (''pva://'' @ p) (''pva://'' @ q))"
  "set (map fst xs) = {''rw''} \<Longrightarrow> map snd xs = [p] \<Longrightarrow>
     make_signal xs dtype = Inr (epics_signal_rw dtype (''pva://'' @ p) (''pva://'' @ p))"
  "set (map fst xs) = {''r''} \<Longrightarrow> map snd xs = [p] \<Longrightarrow>
     make_signal xs dtype = Inr (epics_signal_r dtype (''pva://'' @ p))"
  "set (map fst xs) = {''w''} \<Longrightarrow> map snd xs = [p] \<Longrightarrow>
     make_signal xs dtype = Inr (epics_signal_w dtype (''pva://'' @ p))"
  "set (map fst xs) = {''x''} \<Longrightarrow> map snd xs = [p] \<Longrightarrow>
     make_signal xs dtype = Inr (epics_signal_x (''pva://'' @ p))"
  by (simp_all add: make_signal_def pvi_mapping_def doubleton_eq_iff)

lemma pvi_mapping_unsupported:
  "key \<notin> supported_access \<Longrightarrow> pvi_mapping key = None"
  by (simp add: pvi_mapping_def supported_access_def)

lemma distinct_two:
  assumes "distinct (map fst xs)" and "set (map fst xs) = {a, b}" and "a \<noteq> b"
  shows "\<exists>p q. map snd xs = [p, q]"
proof -
  from assms have "length (map fst xs) = 2"
    using distinct_card[of "map fst xs"] by simp
  then have "length (map snd xs) = 2" by simp
  then show ?thesis
    by (metis (no_types) length_0_conv length_Suc_conv numeral_2_eq_2)
qed

lemma distinct_one:
  assumes "distinct (map fst xs)" and "set (map fst xs) = {a}"
  shows "\<exists>p. map snd xs = [p]"
proof -
  from assms have "length (map fst xs) = 1"
    using distinct_card[of "map fst xs"] by simp
  then have "length (map snd xs) = 1" by simp
  then show ?thesis
    by (metis (no_types) One_nat_def length_0_conv length_Suc_conv)
qed

lemma pva_table_loop_child_fails:
  assumes "(sub_name, pva_entries) \<in> set table"
      and "new_sub_entry hints sub_name pva_entries = Inl e"
  shows "pva_table_loop dflt fetch fuel hints table entry \<noteq> Some (None, entry')"
  using assms(1)
proof (induction table arbitrary: entry)
  case Nil
  then show ?case by simp
next
  case (Cons child rest)
  obtain n ps where child: "child = (n, ps)" by (cases child)
  show ?case
  proof (cases "(n, ps) = (sub_name, pva_entries)")
    case True
    with assms(2) child show ?thesis by simp
  next
    case False
    with Cons.prems child have "(sub_name, pva_entries) \<in> set rest" by auto
    note ih = Cons.IH[OF this]
    show ?thesis unfolding child
      using ih by (auto simp: Let_def split: sum.splits option.splits prod.splits)
  qed
qed

lemma get_pvi_entries_child_fails:
  assumes "fetch pv timeout = Inr table"
      and "pvi_pv entry = Some pv" and "common_device_type entry = Some t"
      and "get_type_hints t = Inr hints"
      and "(sub_name, pva_entries) \<in> set table"
      and "new_sub_entry hints sub_name pva_entries = Inl e"
  shows "get_pvi_entries dflt fetch fuel entry timeout \<noteq> Some (None, entry')"
proof (cases fuel)
  case 0
  then show ?thesis by simp
next
  case (Suc n)
  show ?thesis unfolding Suc
    using assms(1-4) pva_table_loop_child_fails[OF assms(5,6), of dflt fetch n entry]
    by (auto split: option.splits sum.splits prod.splits)
qed

text \<open>
  C3. The keys of \<^verbatim>\<open>pva_entries\<close> are distinct, as those of a dictionary are. The five
  access-mode sets give the five endpoints, the addresses taken in the order of the table
  and prefixed with \<^verbatim>\<open>pva://\<close>; every other set makes the lookup raise \<^verbatim>\<open>KeyError\<close>. A
  child that is resolved as an endpoint and has such a set ends the loop over the table
  with that error, and no discovery of a table that contains the child succeeds.
\<close>

theorem pvi_mapping_exact_match:
  assumes "distinct (map fst pva_entries)"
  shows
    "(set (map fst pva_entries) = {''r'', ''w''} \<longrightarrow>
        (\<exists>read_pv write_pv. map snd pva_entries = [read_pv, write_pv] \<and>
           make_signal pva_entries dtype =
             Inr (epics_signal_rw dtype (''pva://'' @ read_pv) (''pva://'' @ write_pv)))) \<and>
     (set (map fst pva_entries) = {''rw''} \<longrightarrow>
        (\<exists>pv. map snd pva_entries = [pv] \<and>
           make_signal pva_entries dtype =
             Inr (epics_signal_rw dtype (''pva://'' @ pv) (''pva://'' @ pv)))) \<and>
     (set (map fst pva_entries) = {''r''} \<longrightarrow>
        (\<exists>pv. map snd pva_entries = [pv] \<and>
           make_signal pva_entries dtype = Inr (epics_signal_r dtype (''pva://'' @ pv)))) \<and>
     (set (map fst pva_entries) = {''w''} \<longrightarrow>
        (\<exists>pv. map snd pva_entries = [pv] \<and>
           make_signal pva_entries dtype = Inr (epics_signal_w dtype (''pva://'' @ pv)))) \<and>
     (set (map fst pva_entries) = {''x''} \<longrightarrow>
        (\<exists>pv. map snd pva_entries = [pv] \<and>
           make_signal pva_entries dtype = Inr (epics_signal_x (''pva://'' @ pv)))) \<and>
     (set (map fst pva_entries) \<notin> supported_access \<longrightarrow>
        make_signal pva_entries dtype = Inl (KeyError (map fst pva_entries)) \<and>
        (\<forall>hints sub_name b k v t dflt fetch fuel rest entry.
           strip_number_from_string sub_name = Inr (b, k) \<and>
           parse_type (length pva_entries = 1 \<and> endswith (hd (map snd pva_entries)) '':PVI'')
             k (map_of hints b) = Inr (v, True, dtype, t) \<longrightarrow>
           pva_table_loop dflt fetch fuel hints ((sub_name, pva_entries) # rest) entry =
             Some (Some (KeyError (map fst pva_entries)), entry) \<and>
           (\<forall>(timeout :: 'a) root_pv device_t dev table fuel' dev'.
              fetch root_pv timeout = Inr table \<and> (sub_name, pva_entries) \<in> set table \<and>
              get_type_hints device_t = Inr hints \<longrightarrow>
              fill_pvi_entries dflt fetch fuel' device_t dev root_pv timeout False \<noteq>
                Some (None, dev'))))"
proof -
  have c1: "\<exists>read_pv write_pv. map snd pva_entries = [read_pv, write_pv] \<and>
           make_signal pva_entries dtype =
             Inr (epics_signal_rw dtype (''pva://'' @ read_pv) (''pva://'' @ write_pv))"
    if k: "set (map fst pva_entries) = {''r'', ''w''}"
  proof -
    from distinct_two[OF assms k] obtain p q where "map snd pva_entries = [p, q]" by auto
    then show ?thesis using k by (simp add: make_signal_simps)
  qed
  have c2: "\<exists>pv. map snd pva_entries = [pv] \<and>
           make_signal pva_entries dtype =
             Inr (epics_signal_rw dtype (''pva://'' @ pv) (''pva://'' @ pv))"
    if k: "set (map fst pva_entries) = {''rw''}"
  proof -
    from distinct_one[OF assms k] obtain p where "map snd pva_entries = [p]" by auto
    then show ?thesis using k by (simp add: make_signal_simps)
  qed
  have c3: "\<exists>pv. map snd pva_entries = [pv] \<and>
           make_signal pva_entries dtype = Inr (epics_signal_r dtype (''pva://'' @ pv))"
    if k: "set (map fst pva_entries) = {''r''}"
  proof -
    from distinct_one[OF assms k] obtain p where "map snd pva_entries = [p]" by auto
    then show ?thesis using k by (simp add: make_signal_simps)
  qed
  have c4: "\<exists>pv. map snd pva_entries = [pv] \<and>
           make_signal pva_entries dtype = Inr (epics_signal_w dtype (''pva://'' @ pv))"
    if k: "set (map fst pva_entries) = {''w''}"
  proof -
    from distinct_one[OF assms k] obtain p where "map snd pva_entries = [p]" by auto
    then show ?thesis using k by (simp add: make_signal_simps)
  qed
  have c5: "\<exists>pv. map snd pva_entries = [pv] \<and>
           make_signal pva_entries dtype = Inr (epics_signal_x (''pva://'' @ pv))"
    if k: "set (map fst pva_entries) = {''x''}"
  proof -
    from distinct_one[OF assms k] obtain p where "map snd pva_entries = [p]" by auto
    then show ?thesis using k by (simp add: make_signal_simps)
  qed
  have c6: "make_signal pva_entries dtype = Inl (KeyError (map fst pva_entries))"
    if k: "set (map fst pva_entries) \<notin> supported_access"
    using pvi_mapping_unsupported[OF k] by (simp add: make_signal_def)
  have c7: "pva_table_loop dflt fetch fuel hints ((sub_name, pva_entries) # rest) entry =
             Some (Some (KeyError (map fst pva_entries)), entry) \<and>
           (\<forall>(timeout :: 'a) root_pv device_t dev table fuel' dev'.
              fetch root_pv timeout = Inr table \<and> (sub_name, pva_entries) \<in> set table \<and>
              get_type_hints device_t = Inr hints \<longrightarrow>
              fill_pvi_entries dflt fetch fuel' device_t dev root_pv timeout False \<noteq>
                Some (None, dev'))"
    if k: "set (map fst pva_entries) \<notin> supported_access"
      and s: "strip_number_from_string sub_name = Inr (b, k')"
      and p: "parse_type (length pva_entries = 1 \<and> endswith (hd (map snd pva_entries)) '':PVI'')
             k' (map_of hints b) = Inr (v, True, dtype, t)"
    for hints sub_name b k' v t and dflt :: 'a and fetch fuel rest entry
  proof -
    have n: "new_sub_entry hints sub_name pva_entries = Inl (KeyError (map fst pva_entries))"
      using s p c6[OF k] by (simp add: new_sub_entry_def)
    then have "pva_table_loop dflt fetch fuel hints ((sub_name, pva_entries) # rest) entry =
             Some (Some (KeyError (map fst pva_entries)), entry)" by simp
    moreover have "fill_pvi_entries dflt fetch fuel' device_t dev root_pv timeout False \<noteq>
                Some (None, dev')"
      if "fetch root_pv timeout = Inr table" "(sub_name, pva_entries) \<in> set table"
         "get_type_hints device_t = Inr hints"
      for timeout root_pv device_t dev table fuel' dev'
    proof -
      have "get_pvi_entries dflt fetch fuel' (PVIEntry [] (Some root_pv) dev (Some device_t))
              timeout \<noteq> Some (None, e')" for e'
        by (rule get_pvi_entries_child_fails[where pv = root_pv and t = device_t
              and fetch = fetch and timeout = timeout,
              OF that(1) _ _ that(3) that(2) n]) simp_all
      then show ?thesis
        by (auto simp: fill_pvi_entries_def split: option.splits)
    qed
    ultimately show ?thesis by blast
  qed
  show ?thesis
    using c1 c2 c3 c4 c5 c6 c7 by blast
qed

text \<open>For C3: the set \<^verbatim>\<open>{rw}\<close>, and the set \<^verbatim>\<open>{d, r}\<close>, which fails the discovery.\<close>

theorem pvi_mapping_exact_match_witness:
  "distinct (map fst [(''rw'', ''R:A'')]) \<and>
   make_signal [(''rw'', ''R:A'')] None = Inr (epics_signal_rw None ''pva://R:A'' ''pva://R:A'') \<and>
   distinct (map fst [(''d'', ''R:B''), (''r'', ''R:B'')]) \<and>
   set (map fst [(''d'', ''R:B''), (''r'', ''R:B'')]) \<notin> supported_access \<and>
   make_signal [(''d'', ''R:B''), (''r'', ''R:B'')] None = Inl (KeyError [''d'', ''r'']) \<and>
   fill_pvi_entries 10 remote3 1 Device_class old_root ''R:PVI'' 10 False =
     Some (Some (KeyError [''d'', ''r'']), old_root)"
proof -
  have d1: "distinct (map fst [(''rw'', ''R:A'')])" by simp
  have d2: "distinct (map fst [(''d'', ''R:B''), (''r'', ''R:B'')])" by simp
  have u: "set (map fst [(''d'', ''R:B''), (''r'', ''R:B'')]) \<notin> supported_access"
    by (simp add: supported_access_def doubleton_eq_iff)
  have f: "fill_pvi_entries 10 remote3 1 Device_class old_root ''R:PVI'' 10 False =
     Some (Some (KeyError [''d'', ''r'']), old_root)"
    by code_simp
  have "make_signal [(''rw'', ''R:A'')] None = Inr (epics_signal_rw None ''pva://R:A'' ''pva://R:A'')"
    using pvi_mapping_exact_match[OF d1, of None, THEN conjunct2, THEN conjunct1] by simp
  moreover
  have "make_signal [(''d'', ''R:B''), (''r'', ''R:B'')] None = Inl (KeyError [''d'', ''r''])"
    using pvi_mapping_exact_match[OF d2, of None, THEN conjunct2, THEN conjunct2, THEN conjunct2,
        THEN conjunct2, THEN conjunct2, THEN mp, OF u, THEN conjunct1]
    by simp
  ultimately show ?thesis using d1 d2 u f by blast
qed

subsection \<open>Discovery of the example table, and the timeout of nested fetches\<close>

text \<open>
  C6, as the code has it. With no declared schema the example table gives three
  attributes: \<^verbatim>\<open>x\<close>, a read/write endpoint on two addresses, and \<^verbatim>\<open>y1\<close> and \<^verbatim>\<open>y2\<close>, each a
  read/write endpoint on one address, under their full names. There is no collection.
\<close>

theorem discover_table6:
  assumes "endswith root_pv '':PVI''" and "fetch root_pv timeout = Inr table6"
  shows "fill_pvi_entries dflt fetch (Suc fuel) Device_class (instantiate Device_class)
           root_pv timeout False =
         Some (None, Node (Instance Device_class)
           [(''x'', Node (Endpoint (epics_signal_rw None ''pva://PV:X'' ''pva://PV:X'')) [] []),
            (''y1'', Node (Endpoint (epics_signal_rw None ''pva://PV:Y1'' ''pva://PV:Y1'')) [] []),
            (''y2'', Node (Endpoint (epics_signal_rw None ''pva://PV:Y2'' ''pva://PV:Y2'')) [] [])]
           [])"
proof -
  let ?root = "PVIEntry [] (Some root_pv) (instantiate Device_class) (Some Device_class)"
  let ?leaf = "\<lambda>s. Single (PVIEntry [] None (Node (Endpoint s) [] []) (Some Signal_class))"
  have n1: "new_sub_entry Device_hints ''x'' [(''r'', ''PV:X''), (''w'', ''PV:X'')] =
          Inr (False, ''x'', None, False,
               PVIEntry [] None (Node (Endpoint (epics_signal_rw None ''pva://PV:X'' ''pva://PV:X'')) [] [])
                 (Some Signal_class))"
    by code_simp
  have n2: "new_sub_entry Device_hints ''y1'' [(''rw'', ''PV:Y1'')] =
          Inr (False, ''y'', Some 1, False,
               PVIEntry [] None (Node (Endpoint (epics_signal_rw None ''pva://PV:Y1'' ''pva://PV:Y1'')) [] [])
                 (Some Signal_class))"
    by code_simp
  have n3: "new_sub_entry Device_hints ''y2'' [(''rw'', ''PV:Y2'')] =
          Inr (False, ''y'', Some 2, False,
               PVIEntry [] None (Node (Endpoint (epics_signal_rw None ''pva://PV:Y2'' ''pva://PV:Y2'')) [] [])
                 (Some Signal_class))"
    by code_simp
  have l: "pva_table_loop dflt fetch fuel Device_hints table6 ?root =
        Some (None, PVIEntry
          [(''x'', ?leaf (epics_signal_rw None ''pva://PV:X'' ''pva://PV:X'')),
           (''y1'', ?leaf (epics_signal_rw None ''pva://PV:Y1'' ''pva://PV:Y1'')),
           (''y2'', ?leaf (epics_signal_rw None ''pva://PV:Y2'' ''pva://PV:Y2''))]
          (Some root_pv) (instantiate Device_class) (Some Device_class))"
    by (simp add: table6_def n1 n2 n3 put_sub_entry_def)
  have v: "verify_hints e Device_hints = Inr ()" for e
    by (simp add: Device_hints_def)
  have h: "get_type_hints Device_class = Inr Device_hints"
    by (simp add: Device_class_def)
  have "get_pvi_entries dflt fetch (Suc fuel) ?root timeout =
        Some (None, PVIEntry
          [(''x'', ?leaf (epics_signal_rw None ''pva://PV:X'' ''pva://PV:X'')),
           (''y1'', ?leaf (epics_signal_rw None ''pva://PV:Y1'' ''pva://PV:Y1'')),
           (''y2'', ?leaf (epics_signal_rw None ''pva://PV:Y2'' ''pva://PV:Y2''))]
          (Some root_pv) (instantiate Device_class) (Some Device_class))"
    using assms h l v by simp
  then show ?thesis
    by (simp add: fill_pvi_entries_def instantiate_def)
qed

text \<open>For C6: the table served at \<^verbatim>\<open>PV:PVI\<close>.\<close>

theorem discover_table6_witness:
  "endswith ''PV:PVI'' '':PVI'' \<and> remote6 ''PV:PVI'' 5 = Inr table6 \<and>
   fill_pvi_entries 10 remote6 1 Device_class (instantiate Device_class) ''PV:PVI'' 5 False =
     Some (None, Node (Instance Device_class)
       [(''x'', Node (Endpoint (epics_signal_rw None ''pva://PV:X'' ''pva://PV:X'')) [] []),
        (''y1'', Node (Endpoint (epics_signal_rw None ''pva://PV:Y1'' ''pva://PV:Y1'')) [] []),
        (''y2'', Node (Endpoint (epics_signal_rw None ''pva://PV:Y2'' ''pva://PV:Y2'')) [] [])]
       [])"
proof -
  have 1: "endswith ''PV:PVI'' '':PVI''" by (simp add: endswith_def)
  have 2: "remote6 ''PV:PVI'' 5 = Inr table6" by (simp add: remote6_def)
  from discover_table6[where fetch = remote6 and root_pv = "''PV:PVI''" and timeout = 5
      and dflt = 10 and fuel = 0, OF 1 2] 1 2
  show ?thesis by simp
qed

text \<open>C6 as stated fails: the root has the attributes \<^verbatim>\<open>x\<close>, \<^verbatim>\<open>y1\<close> and \<^verbatim>\<open>y2\<close>, and
  none named \<^verbatim>\<open>y\<close>.\<close>

theorem discover_table6_counterexample:
  "map_option (\<lambda>(r, root). (r, map fst (attrs root), map_of (attrs root) ''y''))
     (fill_pvi_entries 10 remote6 1 Device_class (instantiate Device_class) ''PV:PVI'' 5 False) =
   Some (None, [''x'', ''y1'', ''y2''], None)"
  by code_simp

text \<open>
  C7 at the failing input. The caller allows 60 seconds and the remote needs 30. With
  \<^verbatim>\<open>DEFAULT_TIMEOUT\<close> at 10 the root fetch succeeds and the nested one times out, because
  line 249 calls \<^verbatim>\<open>_get_pvi_entries(sub_entry)\<close> without the timeout; with
  \<^verbatim>\<open>DEFAULT_TIMEOUT\<close> at 60 the same call succeeds.
\<close>

theorem nested_fetch_uses_default_timeout:
  "fill_pvi_entries 10 slow_remote 2 Device_class (instantiate Device_class) ''R:PVI'' 60 False =
     Some (Some Timeout, instantiate Device_class) \<and>
   fill_pvi_entries 60 slow_remote 2 Device_class (instantiate Device_class) ''R:PVI'' 60 False =
     Some (None, Node (Instance Device_class)
       [(''sub'', Node (Instance Device_class)
           [(''a'', Node (Endpoint (epics_signal_r None ''pva://R:SUB:A'')) [] [])] [])] [])"
  by code_simp

subsection \<open>The simulation builder\<close>

lemma attrs_setattr [simp]: "attrs (setattr dev n v) = AList.update n v (attrs dev)"
  by (cases dev) simp

lemma sim_hints_skip:
  "sub_name = ''_name'' \<or> sub_name = ''parent'' \<Longrightarrow>
   sim_hints dev ((sub_name, hint) # rest) = sim_hints dev rest"
  by simp






subsection \<open>Simulation against discovery\<close>

text \<open>
  On a class whose endpoint types all carry a value type, and a remote that mirrors it,
  the two entry points give trees of the same names and shape.
\<close>

lemma sim_and_discover_agree_example:
  "map_option (\<lambda>(r, root). (r, shape_of root))
     (fill_pvi_entries 10 remote2 2 Outer2 (instantiate Outer2) ''R:PVI'' 10 False) =
   map_option (\<lambda>(r, root). (r, shape_of root))
     (fill_pvi_entries 10 remote2 2 Outer2 (instantiate Outer2) ''R:PVI'' 10 True) \<and>
   map_option fst
     (fill_pvi_entries 10 remote2 2 Outer2 (instantiate Outer2) ''R:PVI'' 10 True) = Some None"
  by code_simp

text \<open>
  C9 at the failing input. The class declares the action endpoint \<^verbatim>\<open>arm: SignalX\<close> and the
  table has the child \<^verbatim>\<open>arm\<close> with the access mode \<^verbatim>\<open>x\<close>. The simulate entry point gives
  the root the attribute \<^verbatim>\<open>arm\<close>; the discover entry point raises \<^verbatim>\<open>IndexError\<close> in
  \<^verbatim>\<open>_parse_type\<close> and gives no tree.
\<close>

theorem sim_and_discover_differ_on_bare_endpoint:
  "fill_pvi_entries 10 remote9 1 Root9 (instantiate Root9) ''R:PVI'' 10 True =
     Some (None, Node (Instance Root9)
       [(''arm'', Node (SimEndpoint (Class ''SignalX'' True Device_hints) None ''arm'') [] [])] []) \<and>
   fill_pvi_entries 10 remote9 1 Root9 (instantiate Root9) ''R:PVI'' 10 False =
     Some (Some IndexError, instantiate Root9)"
  by code_simp

end
